theory Spec2Isabelle
  imports Complex_Main "HOL-Library.Word"
begin

section \<open>The treasury module (Move, \<open>overflow::treasury\<close>)\<close>

text \<open>
  The on-chain treasury holds one \<open>Balance<T>\<close>, an unsigned 64-bit amount. An entry
  function either commits or aborts with an error code; an aborted transaction leaves the
  shared object as it was. The model returns \<open>Inl code\<close> for an abort and \<open>Inr\<close> the
  new treasury with what the call emitted.
\<close>

type_synonym u64 = "64 word"
type_synonym address = string

datatype abort_code =
    EInsufficientBalance  \<comment> \<open>\<open>const EInsufficientBalance: u64 = 0\<close>\<close>
  | EZeroAmount           \<comment> \<open>\<open>const EZeroAmount: u64 = 1\<close>\<close>
  | ENotEnough            \<comment> \<open>abort of \<open>sui::balance::split\<close>\<close>
  | EOverflow             \<comment> \<open>arithmetic abort of the addition in \<open>sui::balance::join\<close>\<close>

record Treasury =
  balance :: u64

record TxContext =
  sender :: address
  epoch_timestamp_ms :: u64

record DepositEvent =
  de_user :: address
  de_amount :: u64
  de_timestamp :: u64

record WithdrawalEvent =
  we_user :: address
  we_amount :: u64
  we_timestamp :: u64

text \<open>A coin handed to \<open>transfer::public_transfer\<close>: its value and its recipient.\<close>

record CoinTransfer =
  coin_value :: u64
  recipient :: address

text \<open>
  The two framework functions the module calls on its balance. \<open>balance::join\<close> adds
  (Move addition aborts on overflow), \<open>balance::split\<close> asserts that enough is held and
  subtracts, returning what remains and what was taken.
\<close>

definition balance_join :: "u64 \<Rightarrow> u64 \<Rightarrow> u64 option" where
  "balance_join self v = (if unat self + unat v < 2 ^ 64 then Some (self + v) else None)"

definition balance_split :: "u64 \<Rightarrow> u64 \<Rightarrow> (u64 \<times> u64) option" where
  "balance_split self v = (if self \<ge> v then Some (self - v, v) else None)"

definition deposit :: "Treasury \<Rightarrow> u64 \<Rightarrow> TxContext \<Rightarrow> abort_code + Treasury \<times> DepositEvent" where
  "deposit treasury payment ctx =
     (let amount = payment in
      if \<not> amount > 0 then Inl EZeroAmount
      else (case balance_join (balance treasury) amount of
              None \<Rightarrow> Inl EOverflow
            | Some b \<Rightarrow>
                Inr (treasury\<lparr>balance := b\<rparr>,
                     \<lparr>de_user = sender ctx, de_amount = amount,
                      de_timestamp = epoch_timestamp_ms ctx\<rparr>)))"

definition withdraw ::
  "Treasury \<Rightarrow> u64 \<Rightarrow> TxContext \<Rightarrow> abort_code + Treasury \<times> CoinTransfer \<times> WithdrawalEvent" where
  "withdraw treasury amount ctx =
     (if \<not> amount > 0 then Inl EZeroAmount
      else if \<not> balance treasury \<ge> amount then Inl EInsufficientBalance
      else (case balance_split (balance treasury) amount of
              None \<Rightarrow> Inl ENotEnough
            | Some (rest, withdrawn_balance) \<Rightarrow>
                Inr (treasury\<lparr>balance := rest\<rparr>,
                     \<lparr>coin_value = withdrawn_balance, recipient = sender ctx\<rparr>,
                     \<lparr>we_user = sender ctx, we_amount = amount,
                      we_timestamp = epoch_timestamp_ms ctx\<rparr>)))"

definition get_balance :: "Treasury \<Rightarrow> u64" where
  "get_balance treasury = balance treasury"

text \<open>
  The treasury a transaction leaves behind: the new object when the call commits, the old
  one when it aborts.
\<close>

definition after_withdraw :: "Treasury \<Rightarrow> u64 \<Rightarrow> TxContext \<Rightarrow> Treasury" where
  "after_withdraw treasury amount ctx =
     (case withdraw treasury amount ctx of Inl _ \<Rightarrow> treasury | Inr (t, _) \<Rightarrow> t)"

definition after_deposit :: "Treasury \<Rightarrow> u64 \<Rightarrow> TxContext \<Rightarrow> Treasury" where
  "after_deposit treasury payment ctx =
     (case deposit treasury payment ctx of Inl _ \<Rightarrow> treasury | Inr (t, _) \<Rightarrow> t)"

section \<open>JavaScript values used by the game store\<close>

text \<open>
  A JavaScript \<open>number\<close>: not-a-number, a finite value or an infinity. A finite value
  is a rational, the doubles among them. Comparing doubles is exact. Arithmetic on doubles
  rounds: where the store computes with numbers, the operation is an argument of the model
  and nothing is assumed of it.
\<close>

datatype number = NaN | Fin rat | PosInf | NegInf

definition isNaN :: "number \<Rightarrow> bool" where
  "isNaN n = (n = NaN)"

fun js_le :: "number \<Rightarrow> number \<Rightarrow> bool" where
  "js_le NaN _ = False"
| "js_le _ NaN = False"
| "js_le (Fin a) (Fin b) = (a \<le> b)"
| "js_le NegInf _ = True"
| "js_le _ PosInf = True"
| "js_le PosInf _ = False"
| "js_le _ NegInf = False"

text \<open>Truthiness of a number, as \<open>x || y\<close> tests it: \<open>NaN\<close> and \<open>0\<close> are falsy.\<close>

definition js_truthy :: "number \<Rightarrow> bool" where
  "js_truthy n = (n \<noteq> NaN \<and> n \<noteq> Fin 0)"

definition startsWith :: "string \<Rightarrow> string \<Rightarrow> bool" where
  "startsWith s p = (take (length p) s = p)"

text \<open>\<open>s.split(c)\<close> for a one-character separator: always at least one part.\<close>

fun split_on :: "char \<Rightarrow> string \<Rightarrow> string list" where
  "split_on c [] = [[]]"
| "split_on c (x # xs) =
     (if x = c then [] # split_on c xs
      else (case split_on c xs of
              [] \<Rightarrow> [[x]]
            | p # ps \<Rightarrow> (x # p) # ps))"

text \<open>\<open>xs.slice(-n)\<close> for \<open>n > 0\<close>: the last \<open>n\<close> elements, or all of them.\<close>

definition slice_last :: "nat \<Rightarrow> 'a list \<Rightarrow> 'a list" where
  "slice_last n xs = drop (length xs - n) xs"

text \<open>The decimal text of an integer, as a template literal prints \<open>Date.now()\<close>.\<close>

fun string_of_nat :: "nat \<Rightarrow> string" where
  "string_of_nat n =
     (if n < 10 then [''0123456789'' ! n]
      else string_of_nat (n div 10) @ [''0123456789'' ! (n mod 10)])"

declare string_of_nat.simps [simp del]

definition string_of_int :: "int \<Rightarrow> string" where
  "string_of_int i = (if i < 0 then CHR ''-'' # string_of_nat (nat (- i)) else string_of_nat (nat i))"

subsection \<open>A reading of \<open>parseFloat\<close>\<close>

text \<open>
  The store's functions below take \<open>parseFloat\<close> as an argument, so what is proved of
  them holds of any parser. The reading defined here supplies the concrete runs. It skips
  leading ASCII white space and reads the longest prefix that is a decimal literal: an
  optional sign, then \<open>Infinity\<close>, or digits with an optional fraction and an optional
  exponent; with no such prefix the result is \<open>NaN\<close>. It returns the exact value of the
  literal, which is what JavaScript returns whenever that value is a double; it does not
  round, overflow to an infinity or underflow to zero, and the concrete runs use only
  literals whose value is a double (\<open>0\<close>, \<open>10\<close>, \<open>25\<close>, \<open>-5\<close>, \<open>0.5\<close>, \<open>1.75\<close>).
\<close>

definition is_digit :: "char \<Rightarrow> bool" where
  "is_digit c = (c \<in> set ''0123456789'')"

definition is_space :: "char \<Rightarrow> bool" where
  "is_space c = (c \<in> set [CHR '' '', CHR 0x09, CHR 0x0A, CHR 0x0B, CHR 0x0C, CHR 0x0D])"

definition digits_value :: "string \<Rightarrow> nat" where
  "digits_value ds = foldl (\<lambda>a c. 10 * a + (of_char c - 48)) 0 ds"

definition strip_sign :: "string \<Rightarrow> bool \<times> string" where
  "strip_sign t =
     (case t of
        [] \<Rightarrow> (False, [])
      | c # r \<Rightarrow>
          if c = CHR ''-'' then (True, r) else if c = CHR ''+'' then (False, r) else (False, t))"

definition exponent_part :: "string \<Rightarrow> int" where
  "exponent_part t =
     (case t of
        [] \<Rightarrow> 0
      | c # r \<Rightarrow>
          if c = CHR ''e'' \<or> c = CHR ''E'' then
            (let (neg, u) = strip_sign r; ds = takeWhile is_digit u
             in if ds = [] then 0
                else if neg then - int (digits_value ds) else int (digits_value ds))
          else 0)"

definition parseFloat :: "string \<Rightarrow> number" where
  "parseFloat str =
     (let (neg, u) = strip_sign (dropWhile is_space str) in
      if startsWith u ''Infinity'' then (if neg then NegInf else PosInf)
      else
        (let ip = takeWhile is_digit u;
             r1 = dropWhile is_digit u;
             (fp, r2) = (case r1 of
                           [] \<Rightarrow> ([], [])
                         | c # r \<Rightarrow>
                             if c = CHR ''.'' then (takeWhile is_digit r, dropWhile is_digit r)
                             else ([], r1))
         in if ip = [] \<and> fp = [] then NaN
            else
              (let mantissa = of_nat (digits_value ip) + of_nat (digits_value fp) / 10 ^ length fp;
                   e = exponent_part r2;
                   v = (if e \<ge> 0 then mantissa * 10 ^ nat e else mantissa / 10 ^ nat (- e))
               in Fin (if neg then - v else v))))"

text \<open>
  The exact difference of two numbers. It is the difference JavaScript computes whenever
  that difference is itself a double, as it is for the values subtracted in the concrete
  runs below; elsewhere JavaScript rounds and the two differ.
\<close>

fun exact_minus :: "number \<Rightarrow> number \<Rightarrow> number" where
  "exact_minus NaN _ = NaN"
| "exact_minus _ NaN = NaN"
| "exact_minus (Fin a) (Fin b) = Fin (a - b)"
| "exact_minus PosInf PosInf = NaN"
| "exact_minus NegInf NegInf = NaN"
| "exact_minus PosInf _ = PosInf"
| "exact_minus NegInf _ = NegInf"
| "exact_minus _ PosInf = NegInf"
| "exact_minus _ NegInf = PosInf"

section \<open>The game slice of the store (\<open>gameSlice.ts\<close>)\<close>

datatype AssetType = BTC | SUI | SOL

datatype Direction = UP | DOWN

record PricePoint =
  timestamp :: int
  price :: number

record TargetCell =
  cell_id :: string
  cell_label :: string
  cell_multiplier :: number
  cell_priceChange :: number
  cell_direction :: Direction

record ActiveBet =
  bet_id :: string
  bet_cellId :: string
  bet_amount :: number
  bet_multiplier :: number
  bet_direction :: Direction
  bet_timestamp :: int

text \<open>\<open>ActiveRound\<close> is declared outside the slice, which only stores and clears it.\<close>

typedecl ActiveRound

record GameState =
  selectedAsset :: AssetType
  currentPrice :: number
  priceHistory :: "PricePoint list"
  activeRound :: "ActiveRound option"
  activeBets :: "ActiveBet list"
  targetCells :: "TargetCell list"
  isPlacingBet :: bool
  isSettling :: bool
  error :: "string option"

definition MAX_PRICE_HISTORY :: nat where
  "MAX_PRICE_HISTORY = 300"

definition DEFAULT_TARGET_CELLS :: "TargetCell list" where
  "DEFAULT_TARGET_CELLS =
    [\<lparr>cell_id = ''1'', cell_label = ''+$5 in 30s'', cell_multiplier = Fin (3/2),
      cell_priceChange = Fin 5, cell_direction = UP\<rparr>,
     \<lparr>cell_id = ''2'', cell_label = ''+$10 in 30s'', cell_multiplier = Fin 2,
      cell_priceChange = Fin 10, cell_direction = UP\<rparr>,
     \<lparr>cell_id = ''3'', cell_label = ''+$20 in 30s'', cell_multiplier = Fin 3,
      cell_priceChange = Fin 20, cell_direction = UP\<rparr>,
     \<lparr>cell_id = ''4'', cell_label = ''+$50 in 30s'', cell_multiplier = Fin 5,
      cell_priceChange = Fin 50, cell_direction = UP\<rparr>,
     \<lparr>cell_id = ''5'', cell_label = ''+$100 in 30s'', cell_multiplier = Fin 10,
      cell_priceChange = Fin 100, cell_direction = UP\<rparr>,
     \<lparr>cell_id = ''6'', cell_label = ''-$5 in 30s'', cell_multiplier = Fin (3/2),
      cell_priceChange = Fin (-5), cell_direction = DOWN\<rparr>,
     \<lparr>cell_id = ''7'', cell_label = ''-$10 in 30s'', cell_multiplier = Fin 2,
      cell_priceChange = Fin (-10), cell_direction = DOWN\<rparr>,
     \<lparr>cell_id = ''8'', cell_label = ''-$20 in 30s'', cell_multiplier = Fin 3,
      cell_priceChange = Fin (-20), cell_direction = DOWN\<rparr>]"

definition initialState :: GameState where
  "initialState =
    \<lparr>selectedAsset = BTC, currentPrice = Fin 0, priceHistory = [], activeRound = None,
     activeBets = [], targetCells = DEFAULT_TARGET_CELLS, isPlacingBet = False,
     isSettling = False, error = None\<rparr>"

definition setSelectedAsset :: "GameState \<Rightarrow> AssetType \<Rightarrow> GameState" where
  "setSelectedAsset s asset =
     (let currentAsset = selectedAsset s in
      if currentAsset \<noteq> asset
      then s\<lparr>selectedAsset := asset, priceHistory := [], currentPrice := Fin 0,
             activeBets := [], activeRound := None\<rparr>
      else s)"

text \<open>The deprecated \<open>placeBet\<close> only throws.\<close>

definition placeBet :: "GameState \<Rightarrow> string \<Rightarrow> string \<Rightarrow> string \<times> GameState" where
  "placeBet s amount targetId =
     (''placeBet is deprecated after Sui migration. Use placeBetFromHouseBalance instead.'', s)"

definition settleRound :: "GameState \<Rightarrow> string \<Rightarrow> GameState" where
  "settleRound s betId = s\<lparr>isSettling := False\<rparr>"

text \<open>\<open>updatePrice\<close> reads the clock once; the reading is the argument \<open>now\<close>.\<close>

definition updatePrice :: "GameState \<Rightarrow> int \<Rightarrow> number \<Rightarrow> GameState" where
  "updatePrice s now p =
     (let newPoint = \<lparr>timestamp = now, price = p\<rparr>;
          updatedHistory = priceHistory s @ [newPoint];
          fiveMinutesAgo = now - (5 * 60 * 1000);
          filteredHistory = filter (\<lambda>point. timestamp point \<ge> fiveMinutesAgo) updatedHistory;
          trimmedHistory = slice_last MAX_PRICE_HISTORY filteredHistory
      in s\<lparr>currentPrice := p, priceHistory := trimmedHistory\<rparr>)"

definition setActiveRound :: "GameState \<Rightarrow> ActiveRound option \<Rightarrow> GameState" where
  "setActiveRound s r = s\<lparr>activeRound := r\<rparr>"

definition loadTargetCells :: "GameState \<Rightarrow> GameState" where
  "loadTargetCells s = s\<lparr>targetCells := DEFAULT_TARGET_CELLS\<rparr>"

definition addActiveBet :: "GameState \<Rightarrow> ActiveBet \<Rightarrow> GameState" where
  "addActiveBet s b = s\<lparr>activeBets := activeBets s @ [b]\<rparr>"

definition resolveBet :: "GameState \<Rightarrow> string \<Rightarrow> bool \<Rightarrow> number \<Rightarrow> GameState" where
  "resolveBet s betId won payout =
     s\<lparr>activeBets := filter (\<lambda>b. bet_id b \<noteq> betId) (activeBets s)\<rparr>"

definition clearError :: "GameState \<Rightarrow> GameState" where
  "clearError s = s\<lparr>error := None\<rparr>"

subsection \<open>Placing a bet from the house balance\<close>

text \<open>
  The body sent to \<open>POST /api/balance/bet\<close> and what the call can come back with: a
  rejected \<open>fetch\<close> (or an unreadable body) carrying the error's message, a response that
  is not \<open>ok\<close> with its optional \<open>error\<close> text, or the placed bet's id and the remaining
  balance.
\<close>

record BetRequest =
  req_userAddress :: string
  req_betAmount :: number
  req_roundId :: int
  req_targetPrice :: number
  req_isOver :: bool
  req_multiplier :: number
  req_targetCell_id :: nat
  req_targetCell_priceChange :: number
  req_targetCell_direction :: Direction
  req_targetCell_timeframe :: nat

datatype ApiResponse =
    Rejected string
  | NotOk "string option"
  | Ok string number

record BetPlaced =
  betId :: string
  remainingBalance :: number
  bet :: ActiveBet

type_synonym PlaceBetResult = "(string + BetPlaced) \<times> GameState \<times> BetRequest list"

definition formatAddress :: "string \<Rightarrow> string" where
  "formatAddress userAddress =
     (if startsWith userAddress ''0x'' then userAddress else ''0x'' @ userAddress)"

text \<open>
  The target of a bet: price change, direction and multiplier. For a dynamic grid target
  (\<open>UP-2.50\<close>, \<open>DOWN-1.80\<close>) the direction is the text before the first dash, the
  multiplier is \<open>parseFloat\<close> of the text after it, or 1.5 when that is falsy, and the
  price change is fixed by the direction. The id and label of the object built for a
  dynamic target are never read again and are left out. \<open>parseFloat\<close> is the argument
  \<open>pf\<close>; of a missing part it is \<open>NaN\<close>.
\<close>

definition resolveTarget ::
  "(string \<Rightarrow> number) \<Rightarrow> TargetCell list \<Rightarrow> string \<Rightarrow> string + number \<times> Direction \<times> number" where
  "resolveTarget pf cells targetId =
     (if startsWith targetId ''UP-'' \<or> startsWith targetId ''DOWN-'' then
        (let parts = split_on CHR ''-'' targetId;
             direction = (case parts of p0 # _ \<Rightarrow> if p0 = ''UP'' then UP else DOWN | [] \<Rightarrow> DOWN);
             parsed = (case parts of _ # p1 # _ \<Rightarrow> pf p1 | _ \<Rightarrow> NaN);
             multiplier = (if js_truthy parsed then parsed else Fin (3/2))
         in Inr (if direction = UP then Fin 10 else Fin (-10), direction, multiplier))
      else
        (case find (\<lambda>cell. cell_id cell = targetId) cells of
           None \<Rightarrow> Inl ''Invalid target cell''
         | Some foundTarget \<Rightarrow>
             Inr (cell_priceChange foundTarget, cell_direction foundTarget,
                  cell_multiplier foundTarget)))"

text \<open>The \<open>catch\<close> block: the message is stored in the state and the error rethrown.\<close>

definition caught :: "GameState \<Rightarrow> string \<Rightarrow> BetRequest list \<Rightarrow> PlaceBetResult" where
  "caught s msg calls = (Inl msg, s\<lparr>isPlacingBet := False, error := Some msg\<rparr>, calls)"

definition orElse :: "string option \<Rightarrow> string \<Rightarrow> string" where
  "orElse v d = (case v of None \<Rightarrow> d | Some x \<Rightarrow> if x = [] then d else x)"

text \<open>
  \<open>placeBetFromHouseBalance\<close>. \<open>pf\<close> is \<open>parseFloat\<close>, \<open>sub\<close> is the subtraction of
  numbers, \<open>api\<close> answers the request to the bet endpoint, \<open>now1\<close> and \<open>now2\<close> are the
  two readings of \<open>Date.now()\<close> on each path.
  The result is what the promise settles with (\<open>Inl\<close> the rethrown error's message), the
  state afterwards, and the requests sent to the endpoint.
\<close>

definition placeBetFromHouseBalance ::
  "(string \<Rightarrow> number) \<Rightarrow> (number \<Rightarrow> number \<Rightarrow> number) \<Rightarrow> (BetRequest \<Rightarrow> ApiResponse) \<Rightarrow>
     int \<Rightarrow> int \<Rightarrow> GameState \<Rightarrow>
     string \<Rightarrow> string \<Rightarrow> string \<Rightarrow> string option \<Rightarrow> PlaceBetResult" where
  "placeBetFromHouseBalance pf sub api now1 now2 s amount targetId userAddress cellId =
     (let betAmount = pf amount in
      if isNaN betAmount \<or> js_le betAmount (Fin 0) then caught s ''Invalid bet amount'' []
      else
        (let formattedAddress = formatAddress userAddress in
         case resolveTarget pf (targetCells s) targetId of
           Inl msg \<Rightarrow> caught s msg []
         | Inr (priceChange, direction, multiplier) \<Rightarrow>
             (let isDemoMode = startsWith formattedAddress ''0xDEMO'' in
              if isDemoMode then
                (let s1 = s\<lparr>isPlacingBet := True, error := None\<rparr>;
                     fakeBetId = ''demo-'' @ string_of_int now1;
                     activeBet = \<lparr>bet_id = fakeBetId, bet_cellId = orElse cellId targetId,
                                  bet_amount = betAmount, bet_multiplier = multiplier,
                                  bet_direction = direction, bet_timestamp = now2\<rparr>;
                     s2 = addActiveBet s1 activeBet;
                     s3 = s2\<lparr>isPlacingBet := False, error := None\<rparr>
                 in (Inr \<lparr>betId = fakeBetId,
                          remainingBalance = sub (Fin 1000) betAmount,
                          bet = activeBet\<rparr>, s3, []))
              else
                (let s1 = s\<lparr>isPlacingBet := True, error := None\<rparr>;
                     request = \<lparr>req_userAddress = formattedAddress, req_betAmount = betAmount,
                                req_roundId = now1, req_targetPrice = currentPrice s,
                                req_isOver = (direction = UP), req_multiplier = multiplier,
                                req_targetCell_id = 9,
                                req_targetCell_priceChange = priceChange,
                                req_targetCell_direction = direction,
                                req_targetCell_timeframe = 30\<rparr>
                 in case api request of
                      Rejected msg \<Rightarrow> caught s1 msg [request]
                    | NotOk e \<Rightarrow> caught s1 (orElse e ''Failed to place bet'') [request]
                    | Ok dataBetId dataRemaining \<Rightarrow>
                        (let activeBet = \<lparr>bet_id = dataBetId, bet_cellId = orElse cellId targetId,
                                          bet_amount = betAmount, bet_multiplier = multiplier,
                                          bet_direction = direction, bet_timestamp = now2\<rparr>;
                             s2 = addActiveBet s1 activeBet;
                             s3 = s2\<lparr>isPlacingBet := False, error := None\<rparr>
                         in (Inr \<lparr>betId = dataBetId, remainingBalance = dataRemaining,
                                  bet = activeBet\<rparr>, s3, [request]))))))"

text \<open>Two bet endpoints for concrete runs: one that cannot be reached, one that accepts.\<close>

definition api_unreachable :: "BetRequest \<Rightarrow> ApiResponse" where
  "api_unreachable request = Rejected ''Failed to fetch''"

definition api_accepting :: "BetRequest \<Rightarrow> ApiResponse" where
  "api_accepting request = Ok ''bet-1'' (Fin 90)"

text \<open>Every action of the slice, and the state it leaves.\<close>

datatype Action =
    SetSelectedAsset AssetType
  | PlaceBet string string
  | PlaceBetFromHouseBalance "string \<Rightarrow> number" "number \<Rightarrow> number \<Rightarrow> number"
      "BetRequest \<Rightarrow> ApiResponse" int int
      string string string "string option"
  | AddActiveBet ActiveBet
  | ResolveBet string bool number
  | SettleRound string
  | UpdatePrice int number
  | SetActiveRound "ActiveRound option"
  | LoadTargetCells
  | ClearError

fun step :: "GameState \<Rightarrow> Action \<Rightarrow> GameState" where
  "step s (SetSelectedAsset asset) = setSelectedAsset s asset"
| "step s (PlaceBet amount targetId) = snd (placeBet s amount targetId)"
| "step s (PlaceBetFromHouseBalance pf sub api now1 now2 amount targetId userAddress cellId) =
     fst (snd (placeBetFromHouseBalance pf sub api now1 now2 s amount targetId userAddress cellId))"
| "step s (AddActiveBet b) = addActiveBet s b"
| "step s (ResolveBet resolvedId won payout) = resolveBet s resolvedId won payout"
| "step s (SettleRound settledId) = settleRound s settledId"
| "step s (UpdatePrice now p) = updatePrice s now p"
| "step s (SetActiveRound r) = setActiveRound s r"
| "step s LoadTargetCells = loadTargetCells s"
| "step s ClearError = clearError s"

text \<open>A run of price updates, each with its clock reading.\<close>

definition updatePrices :: "GameState \<Rightarrow> (int \<times> number) list \<Rightarrow> GameState" where
  "updatePrices s calls = foldl (\<lambda>st (now, p). updatePrice st now p) s calls"

text \<open>
  A direction and a price-change target agree when the target is positive for \<open>UP\<close> and
  negative for \<open>DOWN\<close>.
\<close>

fun pairing_consistent :: "Direction \<Rightarrow> number \<Rightarrow> bool" where
  "pairing_consistent UP (Fin x) = (0 < x)"
| "pairing_consistent DOWN (Fin x) = (x < 0)"
| "pairing_consistent UP PosInf = True"
| "pairing_consistent DOWN NegInf = True"
| "pairing_consistent _ _ = False"

definition is_dynamic :: "string \<Rightarrow> bool" where
  "is_dynamic targetId = (startsWith targetId ''UP-'' \<or> startsWith targetId ''DOWN-'')"

text \<open>
  The text of a dynamic target that carries the multiplier: what follows the first dash, up
  to the next dash or the end.
\<close>

definition multiplierText :: "string \<Rightarrow> string" where
  "multiplierText targetId =
     takeWhile (\<lambda>c. c \<noteq> CHR ''-'')
       (drop (if startsWith targetId ''UP-'' then 3 else 5) targetId)"

section \<open>The balance ledger\<close>

text \<open>
  The stored procedures and API routes that keep the house balances are not among the
  repository's files at hand; the ledger below follows the specification's data model and
  its four atomic operations. Amounts and balances are exact rationals; the rounding to
  eight decimal places and the time stamps of rows are left out.
\<close>

datatype OperationType = op_deposit | op_withdrawal | op_bet_placed | op_bet_won | op_bet_lost

text \<open>Modelled from the spec: the AuditEntry row of the append-only audit log.\<close>

record AuditEntry =
  entry_id :: nat
  entry_address :: address
  operationType :: OperationType
  entry_amount :: rat
  balanceBefore :: rat
  balanceAfter :: rat
  transactionHash :: "string option"
  entry_betId :: "string option"

text \<open>
  Modelled from the spec: the ledger's storage, one balance per account address and the
  audit log in order of insertion.
\<close>

record Ledger =
  accounts :: "address \<rightharpoonup> rat"
  auditLog :: "AuditEntry list"

datatype LedgerError = InvalidAmount | InsufficientFunds | DuplicateTransaction

definition emptyLedger :: Ledger where
  "emptyLedger = \<lparr>accounts = Map.empty, auditLog = []\<rparr>"

text \<open>
  Modelled from the spec: \<open>getBalance\<close>; an account that does not exist yet counts as a
  zero balance.
\<close>

definition getBalance :: "Ledger \<Rightarrow> address \<Rightarrow> rat" where
  "getBalance L a = (case accounts L a of None \<Rightarrow> 0 | Some b \<Rightarrow> b)"

text \<open>
  Modelled from the spec: the indivisible unit every operation ends with, the account's new
  balance written together with exactly one audit entry whose id is the next in sequence.
\<close>

definition commit ::
  "Ledger \<Rightarrow> address \<Rightarrow> OperationType \<Rightarrow> rat \<Rightarrow> rat \<Rightarrow> string option \<Rightarrow> string option \<Rightarrow> Ledger" where
  "commit L a ty amount newBalance tx bid =
     L\<lparr>accounts := (accounts L)(a \<mapsto> newBalance),
       auditLog := auditLog L @
         [\<lparr>entry_id = Suc (length (auditLog L)), entry_address = a, operationType = ty,
           entry_amount = amount, balanceBefore = getBalance L a, balanceAfter = newBalance,
           transactionHash = tx, entry_betId = bid\<rparr>]\<rparr>"

text \<open>
  Modelled from the spec: whether an audit entry with this transaction hash and operation
  type already exists, the idempotence key of deposits and withdrawals.
\<close>

definition recorded :: "Ledger \<Rightarrow> OperationType \<Rightarrow> string \<Rightarrow> bool" where
  "recorded L ty tx =
     list_ex (\<lambda>e. transactionHash e = Some tx \<and> operationType e = ty) (auditLog L)"



text \<open>
  Modelled from the spec: \<open>creditForDeposit(address, amount, txHash)\<close> fails with
  DuplicateTransaction if an audit entry with that hash and operation \<open>deposit\<close> exists;
  otherwise the balance goes up by the amount, audited as \<open>deposit\<close>.
\<close>

definition creditForDeposit :: "Ledger \<Rightarrow> address \<Rightarrow> rat \<Rightarrow> string \<Rightarrow> LedgerError + rat \<times> Ledger" where
  "creditForDeposit L a amount tx =
     (if recorded L op_deposit tx then Inl DuplicateTransaction
      else (let newBalance = getBalance L a + amount
            in Inr (newBalance, commit L a op_deposit amount newBalance (Some tx) None)))"


text \<open>
  Modelled from the spec: the command \<open>recordDeposit(address, amount, transactionHash)\<close>
  of the command surface. A duplicate is swallowed into a successful response that
  reports the balance as it stands.
\<close>

definition recordDeposit :: "Ledger \<Rightarrow> address \<Rightarrow> rat \<Rightarrow> string \<Rightarrow> rat \<times> Ledger" where
  "recordDeposit L a amount tx =
     (case creditForDeposit L a amount tx of
        Inl _ \<Rightarrow> (getBalance L a, L)
      | Inr (newBalance, L') \<Rightarrow> (newBalance, L'))"











section \<open>Settlement\<close>

datatype BetStatus = Pending | Won | Lost

text \<open>Modelled from the spec: the Bet record of the settlement engine.\<close>

record Bet =
  wager_id :: string
  wager_address :: address
  wager_amount :: rat
  wager_direction :: Direction
  wager_multiplier :: rat
  priceChangeTarget :: rat
  placedAt :: int
  referencePrice :: rat
  deadline :: int
  status :: BetStatus

text \<open>
  Modelled from the spec: the outcome rule. With \<open>delta = endPrice - referencePrice\<close>, a
  bet \<open>UP\<close> is won iff \<open>delta >= priceChangeTarget\<close>, a bet \<open>DOWN\<close> iff
  \<open>delta <= priceChangeTarget\<close>; otherwise it is lost.
\<close>

definition outcome :: "Bet \<Rightarrow> rat \<Rightarrow> BetStatus" where
  "outcome b endPrice =
     (let delta = endPrice - referencePrice b in
      case wager_direction b of
        UP \<Rightarrow> if delta \<ge> priceChangeTarget b then Won else Lost
      | DOWN \<Rightarrow> if delta \<le> priceChangeTarget b then Won else Lost)"

text \<open>Modelled from the spec: \<open>payout = amount * multiplier\<close> if won, else \<open>0\<close>.\<close>

definition payout :: "Bet \<Rightarrow> BetStatus \<Rightarrow> rat" where
  "payout b st = (if st = Won then wager_amount b * wager_multiplier b else 0)"

text \<open>
  Modelled from the spec: settling a bet moves it from Pending to Won or Lost and yields
  the payout; settling a bet that is already terminal is a no-op.
\<close>

definition settle :: "Bet \<Rightarrow> rat \<Rightarrow> Bet \<times> rat" where
  "settle b endPrice =
     (if status b \<noteq> Pending then (b, 0)
      else (let st = outcome b endPrice in (b\<lparr>status := st\<rparr>, payout b st)))"

section \<open>Treasury withdrawals\<close>

lemma withdraw_zero: "withdraw t 0 ctx = Inl EZeroAmount"
  by (simp add: withdraw_def)

lemma withdraw_insufficient:
  "balance t < amount \<Longrightarrow> withdraw t amount ctx = Inl EInsufficientBalance"
  by (auto simp: withdraw_def word_greater_zero_iff)

lemma withdraw_ok:
  assumes "0 < amount" "amount \<le> balance t"
  shows "withdraw t amount ctx =
           Inr (t\<lparr>balance := balance t - amount\<rparr>,
                \<lparr>coin_value = amount, recipient = sender ctx\<rparr>,
                \<lparr>we_user = sender ctx, we_amount = amount,
                 we_timestamp = epoch_timestamp_ms ctx\<rparr>)"
  using assms by (simp add: withdraw_def balance_split_def)

text \<open>
  C4, as stated: a withdrawal with \<open>amount \<le> balance\<close> succeeds. The treasury refuses the
  amount 0, which is below every balance.
\<close>

theorem withdraw_zero_counterexample:
  "(0 :: u64) \<le> balance \<lparr>balance = 5\<rparr> \<and>
   withdraw \<lparr>balance = 5\<rparr> 0 \<lparr>sender = ''0xA'', epoch_timestamp_ms = 0\<rparr> = Inl EZeroAmount"
  by (simp add: withdraw_def)

text \<open>
  C4, amended: a withdrawal whose amount exceeds the held balance aborts with
  \<open>EInsufficientBalance\<close> and leaves the balance unchanged; a withdrawal with
  \<open>0 < amount \<le> balance\<close> commits and lowers the balance by exactly \<open>amount\<close>, as
  unsigned integers with no wrap-around; the amount 0 aborts with \<open>EZeroAmount\<close> and
  leaves the balance unchanged.
\<close>

theorem withdraw_amended:
  "(balance t < amount \<longrightarrow>
      withdraw t amount ctx = Inl EInsufficientBalance \<and> after_withdraw t amount ctx = t) \<and>
   (0 < amount \<and> amount \<le> balance t \<longrightarrow>
      (\<exists>out. withdraw t amount ctx = Inr (after_withdraw t amount ctx, out)) \<and>
      uint (balance (after_withdraw t amount ctx)) = uint (balance t) - uint amount) \<and>
   (amount = 0 \<longrightarrow>
      withdraw t amount ctx = Inl EZeroAmount \<and> after_withdraw t amount ctx = t)"
proof (intro conjI impI)
  assume less: "balance t < amount"
  then show "withdraw t amount ctx = Inl EInsufficientBalance"
    by (rule withdraw_insufficient)
  then show "after_withdraw t amount ctx = t"
    by (simp add: after_withdraw_def)
next
  assume ok: "0 < amount \<and> amount \<le> balance t"
  then have w: "withdraw t amount ctx =
           Inr (t\<lparr>balance := balance t - amount\<rparr>,
                \<lparr>coin_value = amount, recipient = sender ctx\<rparr>,
                \<lparr>we_user = sender ctx, we_amount = amount,
                 we_timestamp = epoch_timestamp_ms ctx\<rparr>)"
    by (simp add: withdraw_ok)
  then show "\<exists>out. withdraw t amount ctx = Inr (after_withdraw t amount ctx, out)"
    by (simp add: after_withdraw_def)
  from ok have "uint (balance t - amount) = uint (balance t) - uint amount"
    by (simp add: uint_minus_simple_alt)
  with w show "uint (balance (after_withdraw t amount ctx)) = uint (balance t) - uint amount"
    by (simp add: after_withdraw_def)
next
  assume "amount = 0"
  then show "withdraw t amount ctx = Inl EZeroAmount"
    by (simp add: withdraw_zero)
  then show "after_withdraw t amount ctx = t"
    by (simp add: after_withdraw_def)
qed

theorem withdraw_amended_witness:
  "balance \<lparr>balance = 5\<rparr> < (7 :: u64) \<and>
   after_withdraw \<lparr>balance = 5\<rparr> 7 \<lparr>sender = ''0xA'', epoch_timestamp_ms = 0\<rparr> = \<lparr>balance = 5\<rparr> \<and>
   (0 :: u64) < 3 \<and> (3 :: u64) \<le> balance \<lparr>balance = 5\<rparr> \<and>
   uint (balance (after_withdraw \<lparr>balance = 5\<rparr> 3 \<lparr>sender = ''0xA'', epoch_timestamp_ms = 0\<rparr>)) = 2 \<and>
   after_withdraw \<lparr>balance = 5\<rparr> 0 \<lparr>sender = ''0xA'', epoch_timestamp_ms = 0\<rparr> = \<lparr>balance = 5\<rparr>"
  using withdraw_amended [of "\<lparr>balance = 5\<rparr>" 7 "\<lparr>sender = ''0xA'', epoch_timestamp_ms = 0\<rparr>"]
        withdraw_amended [of "\<lparr>balance = 5\<rparr>" 3 "\<lparr>sender = ''0xA'', epoch_timestamp_ms = 0\<rparr>"]
        withdraw_amended [of "\<lparr>balance = 5\<rparr>" 0 "\<lparr>sender = ''0xA'', epoch_timestamp_ms = 0\<rparr>"]
  by simp

section \<open>Ledger balances\<close>


lemma getBalance_commit:
  "getBalance (commit L a ty amount nb tx bid) a' = (if a' = a then nb else getBalance L a')"
  by (simp add: getBalance_def commit_def)

lemma auditLog_commit:
  "auditLog (commit L a ty amount nb tx bid) =
     auditLog L @
       [\<lparr>entry_id = Suc (length (auditLog L)), entry_address = a, operationType = ty,
         entry_amount = amount, balanceBefore = getBalance L a, balanceAfter = nb,
         transactionHash = tx, entry_betId = bid\<rparr>]"
  by (simp add: commit_def)

















section \<open>Deposits are idempotent\<close>

lemma recorded_after_deposit:
  "creditForDeposit L a amount tx = Inr (nb, L') \<Longrightarrow> recorded L' op_deposit tx"
  by (auto simp: creditForDeposit_def recorded_def commit_def Let_def split: if_splits)

lemma recordDeposit_recorded:
  "recordDeposit L a amount tx = (b1, L1) \<Longrightarrow> recorded L1 op_deposit tx"
  by (auto simp: recordDeposit_def creditForDeposit_def recorded_def commit_def Let_def
           split: if_splits)

lemma recordDeposit_balance:
  "recordDeposit L a amount tx = (b1, L1) \<Longrightarrow> b1 = getBalance L1 a"
  by (auto simp: recordDeposit_def creditForDeposit_def getBalance_commit Let_def split: if_splits)

lemma recordDeposit_duplicate:
  "recorded L op_deposit tx \<Longrightarrow> recordDeposit L a amount tx = (getBalance L a, L)"
  by (simp add: recordDeposit_def creditForDeposit_def)

lemma recordDeposit_fresh:
  "\<not> recorded L op_deposit tx \<Longrightarrow>
   recordDeposit L a amount tx =
     (getBalance L a + amount,
      commit L a op_deposit amount (getBalance L a + amount) (Some tx) None)"
  by (simp add: recordDeposit_def creditForDeposit_def Let_def)

lemma fresh_filter_empty:
  "\<not> recorded L ty tx \<Longrightarrow>
   filter (\<lambda>e. transactionHash e = Some tx \<and> operationType e = ty) (auditLog L) = []"
  by (auto simp: recorded_def list_ex_iff filter_empty_conv)

text \<open>
  C3: when \<open>recordDeposit\<close> is called twice with the same transaction hash, the second
  call is the duplicate no-op: \<open>creditForDeposit\<close> answers \<open>DuplicateTransaction\<close>, the
  caller still gets the balance back, and the ledger is unchanged. Together the two calls
  append exactly one audit entry and change the balance exactly once when the hash was new,
  and nothing at all when it was already recorded.
\<close>

theorem recordDeposit_idempotent:
  assumes first: "recordDeposit L a amount tx = (b1, L1)"
      and second: "recordDeposit L1 a amount tx = (b2, L2)"
  shows "creditForDeposit L1 a amount tx = Inl DuplicateTransaction \<and>
         L2 = L1 \<and> b2 = b1 \<and>
         (recorded L op_deposit tx \<longrightarrow> L2 = L) \<and>
         (\<not> recorded L op_deposit tx \<longrightarrow>
            auditLog L2 = auditLog L @
              [\<lparr>entry_id = Suc (length (auditLog L)), entry_address = a,
                operationType = op_deposit, entry_amount = amount,
                balanceBefore = getBalance L a, balanceAfter = getBalance L a + amount,
                transactionHash = Some tx, entry_betId = None\<rparr>] \<and>
            length (filter (\<lambda>e. transactionHash e = Some tx \<and> operationType e = op_deposit)
                      (auditLog L2)) = 1 \<and>
            getBalance L2 a = getBalance L a + amount \<and>
            (\<forall>a'. a' \<noteq> a \<longrightarrow> getBalance L2 a' = getBalance L a'))"
proof -
  have rec1: "recorded L1 op_deposit tx"
    using first by (rule recordDeposit_recorded)
  then have dup: "creditForDeposit L1 a amount tx = Inl DuplicateTransaction"
    by (simp add: creditForDeposit_def)
  from rec1 have "recordDeposit L1 a amount tx = (getBalance L1 a, L1)"
    by (rule recordDeposit_duplicate)
  with second have same: "L2 = L1" "b2 = getBalance L1 a"
    by auto
  from first have b1: "b1 = getBalance L1 a" by (rule recordDeposit_balance)
  have old: "recorded L op_deposit tx \<longrightarrow> L2 = L"
    using first same by (auto simp: recordDeposit_duplicate)
  have new: "\<not> recorded L op_deposit tx \<longrightarrow>
            auditLog L2 = auditLog L @
              [\<lparr>entry_id = Suc (length (auditLog L)), entry_address = a,
                operationType = op_deposit, entry_amount = amount,
                balanceBefore = getBalance L a, balanceAfter = getBalance L a + amount,
                transactionHash = Some tx, entry_betId = None\<rparr>] \<and>
            length (filter (\<lambda>e. transactionHash e = Some tx \<and> operationType e = op_deposit)
                      (auditLog L2)) = 1 \<and>
            getBalance L2 a = getBalance L a + amount \<and>
            (\<forall>a'. a' \<noteq> a \<longrightarrow> getBalance L2 a' = getBalance L a')"
  proof
    assume fresh: "\<not> recorded L op_deposit tx"
    with first have L1: "L1 = commit L a op_deposit amount (getBalance L a + amount) (Some tx) None"
      by (auto simp: recordDeposit_fresh)
    show "auditLog L2 = auditLog L @
              [\<lparr>entry_id = Suc (length (auditLog L)), entry_address = a,
                operationType = op_deposit, entry_amount = amount,
                balanceBefore = getBalance L a, balanceAfter = getBalance L a + amount,
                transactionHash = Some tx, entry_betId = None\<rparr>] \<and>
            length (filter (\<lambda>e. transactionHash e = Some tx \<and> operationType e = op_deposit)
                      (auditLog L2)) = 1 \<and>
            getBalance L2 a = getBalance L a + amount \<and>
            (\<forall>a'. a' \<noteq> a \<longrightarrow> getBalance L2 a' = getBalance L a')"
      unfolding same L1
      by (simp add: auditLog_commit getBalance_commit fresh_filter_empty [OF fresh])
  qed
  from same b1 have eq: "b2 = b1" by simp
  show ?thesis
    by (intro conjI) (fact dup, fact same(1), fact eq, fact old, fact new)
qed

theorem recordDeposit_idempotent_witness:
  "recordDeposit emptyLedger ''0xU'' 100 ''0xA'' =
     (100, commit emptyLedger ''0xU'' op_deposit 100 100 (Some ''0xA'') None) \<and>
   recordDeposit (commit emptyLedger ''0xU'' op_deposit 100 100 (Some ''0xA'') None) ''0xU'' 100 ''0xA'' =
     (100, commit emptyLedger ''0xU'' op_deposit 100 100 (Some ''0xA'') None) \<and>
   \<not> recorded emptyLedger op_deposit ''0xA'' \<and>
   length (auditLog (commit emptyLedger ''0xU'' op_deposit 100 100 (Some ''0xA'') None)) = 1 \<and>
   getBalance (commit emptyLedger ''0xU'' op_deposit 100 100 (Some ''0xA'') None) ''0xU'' = 100"
proof -
  have first: "recordDeposit emptyLedger ''0xU'' 100 ''0xA'' =
     (100, commit emptyLedger ''0xU'' op_deposit 100 100 (Some ''0xA'') None)"
    by (simp add: recordDeposit_def creditForDeposit_def recorded_def emptyLedger_def
                  getBalance_def Let_def)
  have second: "recordDeposit (commit emptyLedger ''0xU'' op_deposit 100 100 (Some ''0xA'') None)
       ''0xU'' 100 ''0xA'' =
     (100, commit emptyLedger ''0xU'' op_deposit 100 100 (Some ''0xA'') None)"
    by (simp add: recordDeposit_def creditForDeposit_def recorded_def emptyLedger_def
                  getBalance_def commit_def Let_def)
  have fresh: "\<not> recorded emptyLedger op_deposit ''0xA''"
    by (simp add: recorded_def emptyLedger_def)
  show ?thesis
    using first second fresh recordDeposit_idempotent [OF first second]
    by (simp add: getBalance_def emptyLedger_def)
qed

section \<open>The outcome rule\<close>

text \<open>
  C2: a pending bet is settled by the outcome rule alone: with
  \<open>delta = endPrice - referencePrice\<close> it is won iff the direction is \<open>UP\<close> and
  \<open>delta \<ge> priceChangeTarget\<close> or the direction is \<open>DOWN\<close> and
  \<open>delta \<le> priceChangeTarget\<close>, and lost otherwise; the payout is
  \<open>amount * multiplier\<close> when won and \<open>0\<close> when lost. With reference price 50000,
  direction \<open>UP\<close> and target 10, the end price 50010 wins and 50009 loses.
\<close>

theorem settlement_rule:
  assumes "status b = Pending"
  shows "(status (fst (settle b endPrice)) = Won \<longleftrightarrow>
            (wager_direction b = UP \<and> endPrice - referencePrice b \<ge> priceChangeTarget b) \<or>
            (wager_direction b = DOWN \<and> endPrice - referencePrice b \<le> priceChangeTarget b)) \<and>
         (status (fst (settle b endPrice)) \<noteq> Won \<longleftrightarrow> status (fst (settle b endPrice)) = Lost) \<and>
         snd (settle b endPrice) =
           (if status (fst (settle b endPrice)) = Won then wager_amount b * wager_multiplier b else 0) \<and>
         (referencePrice b = 50000 \<and> wager_direction b = UP \<and> priceChangeTarget b = 10 \<longrightarrow>
            status (fst (settle b 50010)) = Won \<and>
            snd (settle b 50010) = wager_amount b * wager_multiplier b \<and>
            status (fst (settle b 50009)) = Lost \<and>
            snd (settle b 50009) = 0)"
  using assms
  by (cases "wager_direction b") (simp_all add: settle_def outcome_def payout_def Let_def)

theorem settlement_rule_witness:
  "status \<lparr>wager_id = ''bet-1'', wager_address = ''0xU'', wager_amount = 10, wager_direction = UP,
           wager_multiplier = 2, priceChangeTarget = 10, placedAt = 0, referencePrice = 50000,
           deadline = 30, status = Pending\<rparr> = Pending \<and>
   settle \<lparr>wager_id = ''bet-1'', wager_address = ''0xU'', wager_amount = 10, wager_direction = UP,
           wager_multiplier = 2, priceChangeTarget = 10, placedAt = 0, referencePrice = 50000,
           deadline = 30, status = Pending\<rparr> 50010 =
     (\<lparr>wager_id = ''bet-1'', wager_address = ''0xU'', wager_amount = 10, wager_direction = UP,
       wager_multiplier = 2, priceChangeTarget = 10, placedAt = 0, referencePrice = 50000,
       deadline = 30, status = Won\<rparr>, 20) \<and>
   settle \<lparr>wager_id = ''bet-1'', wager_address = ''0xU'', wager_amount = 10, wager_direction = UP,
           wager_multiplier = 2, priceChangeTarget = 10, placedAt = 0, referencePrice = 50000,
           deadline = 30, status = Pending\<rparr> 50009 =
     (\<lparr>wager_id = ''bet-1'', wager_address = ''0xU'', wager_amount = 10, wager_direction = UP,
       wager_multiplier = 2, priceChangeTarget = 10, placedAt = 0, referencePrice = 50000,
       deadline = 30, status = Lost\<rparr>, 0)"
  using settlement_rule [of "\<lparr>wager_id = ''bet-1'', wager_address = ''0xU'', wager_amount = 10,
           wager_direction = UP, wager_multiplier = 2, priceChangeTarget = 10, placedAt = 0,
           referencePrice = 50000, deadline = 30, status = Pending\<rparr>" 50010]
  by (simp add: settle_def outcome_def payout_def)

section \<open>Price history\<close>

lemma length_slice_last: "length (slice_last n xs) \<le> n"
  by (simp add: slice_last_def)

lemma set_slice_last: "set (slice_last n xs) \<subseteq> set xs"
  by (simp add: slice_last_def set_drop_subset)

lemma slice_last_snoc:
  "0 < n \<Longrightarrow> slice_last n (xs @ [x]) \<noteq> [] \<and> last (slice_last n (xs @ [x])) = x"
  by (simp add: slice_last_def)

lemma updatePrice_currentPrice: "currentPrice (updatePrice s now p) = p"
  by (simp add: updatePrice_def Let_def)

lemma updatePrice_history:
  "priceHistory (updatePrice s now p) =
     slice_last MAX_PRICE_HISTORY
       (filter (\<lambda>point. now - 300000 \<le> timestamp point) (priceHistory s) @
        [\<lparr>timestamp = now, price = p\<rparr>])"
  by (simp add: updatePrice_def Let_def)

lemma updatePrice_length: "length (priceHistory (updatePrice s now p)) \<le> 300"
  unfolding updatePrice_history using length_slice_last [of MAX_PRICE_HISTORY]
  by (simp add: MAX_PRICE_HISTORY_def)

lemma updatePrice_window:
  "pt \<in> set (priceHistory (updatePrice s now p)) \<Longrightarrow> now - 300000 \<le> timestamp pt"
  unfolding updatePrice_history using set_slice_last [of MAX_PRICE_HISTORY] by fastforce

lemma updatePrice_subset:
  "pt \<in> set (priceHistory (updatePrice s now p)) \<Longrightarrow>
     pt \<in> set (priceHistory s) \<or> pt = \<lparr>timestamp = now, price = p\<rparr>"
  unfolding updatePrice_history using set_slice_last [of MAX_PRICE_HISTORY] by fastforce

lemma updatePrice_last:
  "priceHistory (updatePrice s now p) \<noteq> [] \<and>
   last (priceHistory (updatePrice s now p)) = \<lparr>timestamp = now, price = p\<rparr>"
  unfolding updatePrice_history by (rule slice_last_snoc) (simp add: MAX_PRICE_HISTORY_def)

lemma updatePrices_snoc:
  "updatePrices s (calls @ [(now, p)]) = updatePrice (updatePrices s calls) now p"
  by (simp add: updatePrices_def)

lemma updatePrices_upper:
  "\<forall>pt \<in> set (priceHistory s). timestamp pt \<le> t \<Longrightarrow> \<forall>c \<in> set calls. fst c \<le> t \<Longrightarrow>
   \<forall>pt \<in> set (priceHistory (updatePrices s calls)). timestamp pt \<le> t"
proof (induction calls rule: rev_induct)
  case Nil
  then show ?case by (simp add: updatePrices_def)
next
  case (snoc c calls)
  obtain now p where c: "c = (now, p)" by (cases c)
  from snoc have ih: "\<forall>pt \<in> set (priceHistory (updatePrices s calls)). timestamp pt \<le> t"
    by simp
  from snoc.prems c have "now \<le> t" by simp
  with ih show ?case
    unfolding c updatePrices_snoc using updatePrice_subset by fastforce
qed

text \<open>
  C10, as stated: every retained point lies within the five minutes that end at the call
  time. Only the older end of that window is filtered: when the clock reads 500000 at one
  update and 1000 at the next, the point stamped 500000 is kept, later than the call time.
\<close>

theorem clock_backwards_counterexample:
  "priceHistory (updatePrices initialState [(500000, Fin 5), (1000, Fin 6)]) =
     [\<lparr>timestamp = 500000, price = Fin 5\<rparr>, \<lparr>timestamp = 1000, price = Fin 6\<rparr>] \<and>
   \<not> timestamp \<lparr>timestamp = 500000, price = Fin 5\<rparr> \<le> 1000"
  by (simp add: updatePrices_def updatePrice_def initialState_def slice_last_def
                MAX_PRICE_HISTORY_def)

text \<open>
  C10, amended: after \<open>updatePrice\<close> with price \<open>p\<close> at clock reading \<open>now\<close>, following
  any run of earlier updates from any state, the current price is \<open>p\<close>, the history is
  the last 300 of the earlier points that are no older than five minutes before \<open>now\<close>
  followed by the new point, so it holds at most 300 points, every retained point is no
  older than five minutes before \<open>now\<close>, and the new point is the last one. A retained
  point is later than \<open>now\<close> only if a stored point or an earlier reading of the clock
  was.
\<close>

theorem updatePrice_invariant:
  "currentPrice (updatePrices s (calls @ [(now, p)])) = p \<and>
   length (priceHistory (updatePrices s (calls @ [(now, p)]))) \<le> 300 \<and>
   (\<forall>pt \<in> set (priceHistory (updatePrices s (calls @ [(now, p)]))).
       now - 5 * 60 * 1000 \<le> timestamp pt) \<and>
   priceHistory (updatePrices s (calls @ [(now, p)])) \<noteq> [] \<and>
   last (priceHistory (updatePrices s (calls @ [(now, p)]))) = \<lparr>timestamp = now, price = p\<rparr> \<and>
   priceHistory (updatePrices s (calls @ [(now, p)])) =
     slice_last MAX_PRICE_HISTORY
       (filter (\<lambda>point. timestamp point \<ge> now - 5 * 60 * 1000)
          (priceHistory (updatePrices s calls)) @ [\<lparr>timestamp = now, price = p\<rparr>]) \<and>
   ((\<forall>pt \<in> set (priceHistory s). timestamp pt \<le> now) \<and> (\<forall>c \<in> set calls. fst c \<le> now) \<longrightarrow>
    (\<forall>pt \<in> set (priceHistory (updatePrices s (calls @ [(now, p)]))). timestamp pt \<le> now))"
proof (intro conjI impI)
  show "currentPrice (updatePrices s (calls @ [(now, p)])) = p"
    by (simp only: updatePrices_snoc updatePrice_currentPrice)
  show "length (priceHistory (updatePrices s (calls @ [(now, p)]))) \<le> 300"
    by (simp only: updatePrices_snoc updatePrice_length)
  show "\<forall>pt \<in> set (priceHistory (updatePrices s (calls @ [(now, p)]))).
          now - 5 * 60 * 1000 \<le> timestamp pt"
    using updatePrice_window [of _ "updatePrices s calls" now p]
    by (simp add: updatePrices_snoc)
  show "priceHistory (updatePrices s (calls @ [(now, p)])) \<noteq> []"
    by (simp only: updatePrices_snoc updatePrice_last not_False_eq_True)
  show "last (priceHistory (updatePrices s (calls @ [(now, p)]))) = \<lparr>timestamp = now, price = p\<rparr>"
    by (simp only: updatePrices_snoc updatePrice_last)
  show "priceHistory (updatePrices s (calls @ [(now, p)])) =
     slice_last MAX_PRICE_HISTORY
       (filter (\<lambda>point. timestamp point \<ge> now - 5 * 60 * 1000)
          (priceHistory (updatePrices s calls)) @ [\<lparr>timestamp = now, price = p\<rparr>])"
    by (simp add: updatePrices_snoc updatePrice_history)
next
  assume a: "(\<forall>pt \<in> set (priceHistory s). timestamp pt \<le> now) \<and> (\<forall>c \<in> set calls. fst c \<le> now)"
  then have "\<forall>c \<in> set (calls @ [(now, p)]). fst c \<le> now" by simp
  with a show "\<forall>pt \<in> set (priceHistory (updatePrices s (calls @ [(now, p)]))). timestamp pt \<le> now"
    using updatePrices_upper [of s now "calls @ [(now, p)]"] by blast
qed

lemma sample_updates:
  "priceHistory (updatePrices initialState [(1000, Fin 5), (400000, Fin 6)]) =
     [\<lparr>timestamp = 400000, price = Fin 6\<rparr>]"
  by (simp add: updatePrices_def updatePrice_def initialState_def slice_last_def MAX_PRICE_HISTORY_def)

theorem updatePrice_invariant_witness:
  "priceHistory initialState = [] \<and> (1000 :: int) \<le> 400000 \<and>
   currentPrice (updatePrices initialState [(1000, Fin 5), (400000, Fin 6)]) = Fin 6 \<and>
   length (priceHistory (updatePrices initialState [(1000, Fin 5), (400000, Fin 6)])) \<le> 300 \<and>
   priceHistory (updatePrices initialState [(1000, Fin 5), (400000, Fin 6)]) =
     [\<lparr>timestamp = 400000, price = Fin 6\<rparr>] \<and>
   last (priceHistory (updatePrices initialState [(1000, Fin 5), (400000, Fin 6)])) =
     \<lparr>timestamp = 400000, price = Fin 6\<rparr>"
  using updatePrice_invariant [of initialState "[(1000, Fin 5)]" 400000 "Fin 6"]
  by (simp add: initialState_def sample_updates [unfolded initialState_def])

section \<open>Active bets\<close>

lemmas parseFloat_defs =
  parseFloat_def strip_sign_def is_space_def is_digit_def digits_value_def exponent_part_def

lemma caught_activeBets: "activeBets (fst (snd (caught s msg calls))) = activeBets s"
  by (simp add: caught_def)

lemma placeBetFromHouseBalance_keeps:
  "b \<in> set (activeBets s) \<Longrightarrow>
   b \<in> set (activeBets (fst (snd (placeBetFromHouseBalance pf sub api now1 now2 s amount targetId
                                      userAddress cellId))))"
  by (auto simp: placeBetFromHouseBalance_def caught_def addActiveBet_def Let_def
           split: sum.splits prod.splits ApiResponse.splits)

text \<open>
  C8, as stated: no operation drops an active bet other than its settlement. Switching the
  selected asset from BTC to SUI empties the list of active bets.
\<close>

theorem setSelectedAsset_drops_counterexample:
  "\<lparr>bet_id = ''bet-1'', bet_cellId = ''cell-1'', bet_amount = Fin 10, bet_multiplier = Fin 2,
    bet_direction = UP, bet_timestamp = 1000\<rparr>
     \<in> set (activeBets (initialState\<lparr>activeBets :=
           [\<lparr>bet_id = ''bet-1'', bet_cellId = ''cell-1'', bet_amount = Fin 10,
             bet_multiplier = Fin 2, bet_direction = UP, bet_timestamp = 1000\<rparr>]\<rparr>)) \<and>
   activeBets (setSelectedAsset (initialState\<lparr>activeBets :=
           [\<lparr>bet_id = ''bet-1'', bet_cellId = ''cell-1'', bet_amount = Fin 10,
             bet_multiplier = Fin 2, bet_direction = UP, bet_timestamp = 1000\<rparr>]\<rparr>) SUI) = []"
  by (simp add: setSelectedAsset_def initialState_def)

text \<open>
  C8, amended: an active bet leaves the list of active bets only when \<open>resolveBet\<close> is
  called with its id, or when the selected asset is switched to a different asset, which
  clears all active bets; every other action of the slice keeps it.
\<close>

theorem active_bet_removed_only_by:
  assumes "b \<in> set (activeBets s)"
  shows "b \<in> set (activeBets (step s a)) \<or>
         (\<exists>won payout. a = ResolveBet (bet_id b) won payout) \<or>
         (\<exists>asset. a = SetSelectedAsset asset \<and> asset \<noteq> selectedAsset s)"
proof (cases a)
  case (SetSelectedAsset asset)
  with assms show ?thesis by (auto simp: setSelectedAsset_def)
next
  case (PlaceBetFromHouseBalance pf sub api now1 now2 amount targetId userAddress cellId)
  with assms show ?thesis by (simp add: placeBetFromHouseBalance_keeps)
next
  case (ResolveBet resolvedId won payout)
  with assms show ?thesis by (auto simp: resolveBet_def)
next
  case (UpdatePrice now p)
  with assms show ?thesis by (simp add: updatePrice_def Let_def)
qed (use assms in \<open>simp_all add: placeBet_def addActiveBet_def settleRound_def setActiveRound_def
                     loadTargetCells_def clearError_def\<close>)

theorem active_bet_removed_only_by_witness:
  "\<lparr>bet_id = ''bet-1'', bet_cellId = ''cell-1'', bet_amount = Fin 10, bet_multiplier = Fin 2,
    bet_direction = UP, bet_timestamp = 1000\<rparr>
     \<in> set (activeBets (initialState\<lparr>activeBets :=
           [\<lparr>bet_id = ''bet-1'', bet_cellId = ''cell-1'', bet_amount = Fin 10,
             bet_multiplier = Fin 2, bet_direction = UP, bet_timestamp = 1000\<rparr>]\<rparr>)) \<and>
   \<lparr>bet_id = ''bet-1'', bet_cellId = ''cell-1'', bet_amount = Fin 10, bet_multiplier = Fin 2,
    bet_direction = UP, bet_timestamp = 1000\<rparr>
     \<in> set (activeBets (step (initialState\<lparr>activeBets :=
           [\<lparr>bet_id = ''bet-1'', bet_cellId = ''cell-1'', bet_amount = Fin 10,
             bet_multiplier = Fin 2, bet_direction = UP, bet_timestamp = 1000\<rparr>]\<rparr>)
           (UpdatePrice 2000 (Fin 50000))))"
  using active_bet_removed_only_by
    [of "\<lparr>bet_id = ''bet-1'', bet_cellId = ''cell-1'', bet_amount = Fin 10, bet_multiplier = Fin 2,
          bet_direction = UP, bet_timestamp = 1000\<rparr>"
        "initialState\<lparr>activeBets :=
           [\<lparr>bet_id = ''bet-1'', bet_cellId = ''cell-1'', bet_amount = Fin 10,
             bet_multiplier = Fin 2, bet_direction = UP, bet_timestamp = 1000\<rparr>]\<rparr>"
        "UpdatePrice 2000 (Fin 50000)"]
  by simp

section \<open>Rejected amounts\<close>

text \<open>
  C5, as stated: a call with an amount that is not positive has no effect on the state. The
  rejection is written into the state: the \<open>error\<close> field no longer is empty.
\<close>

theorem invalid_amount_counterexample:
  "js_le (parseFloat ''0'') (Fin 0) \<and>
   fst (snd (placeBetFromHouseBalance parseFloat exact_minus api_unreachable 1000 1001 initialState
               ''0'' ''2'' ''0xA'' None)) \<noteq> initialState"
  by (simp add: placeBetFromHouseBalance_def caught_def initialState_def parseFloat_defs
                startsWith_def isNaN_def)

text \<open>
  C5, amended: when the parsed amount is not a number or is \<open>\<le> 0\<close>,
  \<open>placeBetFromHouseBalance\<close> rejects with the message \<open>Invalid bet amount\<close> before any
  request is sent and without adding a bet; the only change to the state is that
  \<open>error\<close> holds the message and \<open>isPlacingBet\<close> is false.
\<close>

theorem invalid_amount_rejected:
  assumes "isNaN (pf amount) \<or> js_le (pf amount) (Fin 0)"
  shows "placeBetFromHouseBalance pf sub api now1 now2 s amount targetId userAddress cellId =
           (Inl ''Invalid bet amount'',
            s\<lparr>isPlacingBet := False, error := Some ''Invalid bet amount''\<rparr>, [])"
  using assms by (auto simp: placeBetFromHouseBalance_def caught_def Let_def)

theorem invalid_amount_rejected_witness:
  "js_le (parseFloat ''-5'') (Fin 0) \<and>
   placeBetFromHouseBalance parseFloat exact_minus api_accepting 1000 1001 initialState
       ''-5'' ''2'' ''0xA'' None =
     (Inl ''Invalid bet amount'',
      initialState\<lparr>isPlacingBet := False, error := Some ''Invalid bet amount''\<rparr>, [])"
proof -
  have h: "js_le (parseFloat ''-5'') (Fin 0)"
    by (simp add: parseFloat_defs startsWith_def)
  then show ?thesis
    using invalid_amount_rejected [where pf = parseFloat and amount = "''-5''"
        and sub = exact_minus and api = api_accepting and ?now1.0 = 1000 and ?now2.0 = 1001
        and s = initialState and targetId = "''2''" and userAddress = "''0xA''" and cellId = None]
    by simp
qed

section \<open>Target validation\<close>

lemma startsWith_append: "startsWith s p \<longleftrightarrow> (\<exists>r. s = p @ r)"
  unfolding startsWith_def
  by (metis append_eq_conv_conj append_take_drop_id)

lemma split_on_UP: "startsWith targetId ''UP-'' \<Longrightarrow> \<exists>ps. split_on CHR ''-'' targetId = ''UP'' # ps"
  by (auto simp: startsWith_append split: list.splits)

lemma split_on_DOWN:
  "startsWith targetId ''DOWN-'' \<Longrightarrow> \<exists>ps. split_on CHR ''-'' targetId = ''DOWN'' # ps"
  by (auto simp: startsWith_append split: list.splits)

lemma find_Some_set: "find P xs = Some x \<Longrightarrow> x \<in> set xs \<and> P x"
  by (induction xs) (auto split: if_splits)

lemma default_cells_sound:
  "c \<in> set DEFAULT_TARGET_CELLS \<Longrightarrow>
     pairing_consistent (cell_direction c) (cell_priceChange c) \<and> \<not> js_le (cell_multiplier c) (Fin 1)"
  by (auto simp: DEFAULT_TARGET_CELLS_def)

lemma resolveTarget_Inl:
  "resolveTarget pf cells targetId = Inl msg \<longleftrightarrow>
     msg = ''Invalid target cell'' \<and> \<not> is_dynamic targetId \<and>
     find (\<lambda>cell. cell_id cell = targetId) cells = None"
  by (auto simp: resolveTarget_def is_dynamic_def Let_def split: option.splits)

lemma split_on_takeWhile: "\<exists>ps. split_on c xs = takeWhile (\<lambda>x. x \<noteq> c) xs # ps"
  by (induction xs) (auto split: list.splits)

lemma split_on_UP_parts:
  assumes "startsWith targetId ''UP-''"
  shows "\<exists>ps. split_on CHR ''-'' targetId = ''UP'' # multiplierText targetId # ps"
proof -
  from assms obtain r where r: "targetId = ''UP-'' @ r"
    by (auto simp: startsWith_append)
  obtain ps where "split_on CHR ''-'' r = takeWhile (\<lambda>x. x \<noteq> CHR ''-'') r # ps"
    using split_on_takeWhile by blast
  with r assms show ?thesis
    by (simp add: multiplierText_def)
qed

lemma split_on_DOWN_parts:
  assumes "startsWith targetId ''DOWN-''"
  shows "\<exists>ps. split_on CHR ''-'' targetId = ''DOWN'' # multiplierText targetId # ps"
proof -
  from assms obtain r where r: "targetId = ''DOWN-'' @ r"
    by (auto simp: startsWith_append)
  then have up: "\<not> startsWith targetId ''UP-''"
    by (simp add: startsWith_def)
  obtain ps where "split_on CHR ''-'' r = takeWhile (\<lambda>x. x \<noteq> CHR ''-'') r # ps"
    using split_on_takeWhile by blast
  with r up show ?thesis
    by (simp add: multiplierText_def)
qed

lemma resolveTarget_dynamic_value:
  assumes "is_dynamic targetId"
  shows "resolveTarget pf cells targetId =
           Inr (if startsWith targetId ''UP-'' then Fin 10 else Fin (-10),
                if startsWith targetId ''UP-'' then UP else DOWN,
                if js_truthy (pf (multiplierText targetId)) then pf (multiplierText targetId)
                else Fin (3/2))"
proof (cases "startsWith targetId ''UP-''")
  case True
  then obtain ps where "split_on CHR ''-'' targetId = ''UP'' # multiplierText targetId # ps"
    using split_on_UP_parts by blast
  with True show ?thesis
    by (simp add: resolveTarget_def Let_def)
next
  case False
  with assms have dn: "startsWith targetId ''DOWN-''"
    by (simp add: is_dynamic_def)
  then obtain ps where "split_on CHR ''-'' targetId = ''DOWN'' # multiplierText targetId # ps"
    using split_on_DOWN_parts by blast
  with False dn show ?thesis
    by (simp add: resolveTarget_def Let_def)
qed

lemma resolveTarget_static:
  assumes "\<not> is_dynamic targetId"
  shows "resolveTarget pf cells targetId =
           (case find (\<lambda>cell. cell_id cell = targetId) cells of
              None \<Rightarrow> Inl ''Invalid target cell''
            | Some c \<Rightarrow> Inr (cell_priceChange c, cell_direction c, cell_multiplier c))"
  using assms by (simp add: resolveTarget_def is_dynamic_def)

lemma resolveTarget_dynamic:
  assumes "is_dynamic targetId" "resolveTarget pf cells targetId = Inr (pc, d, m)"
  shows "pc = (if d = UP then Fin 10 else Fin (-10)) \<and> (startsWith targetId ''UP-'' \<longleftrightarrow> d = UP)"
proof -
  have "startsWith targetId ''UP-'' \<or> startsWith targetId ''DOWN-''"
    using assms(1) by (simp add: is_dynamic_def)
  then show ?thesis
  proof
    assume u: "startsWith targetId ''UP-''"
    then obtain ps where "split_on CHR ''-'' targetId = ''UP'' # ps"
      using split_on_UP by blast
    with assms u show ?thesis
      by (auto simp: resolveTarget_def Let_def)
  next
    assume dn: "startsWith targetId ''DOWN-''"
    then obtain ps where "split_on CHR ''-'' targetId = ''DOWN'' # ps"
      using split_on_DOWN by blast
    moreover from dn have "\<not> startsWith targetId ''UP-''"
      by (auto simp: startsWith_append)
    ultimately show ?thesis using assms dn
      by (auto simp: resolveTarget_def Let_def)
  qed
qed

lemma resolveTarget_consistent:
  assumes "resolveTarget pf cells targetId = Inr (pc, d, m)"
    and "is_dynamic targetId \<or> cells = DEFAULT_TARGET_CELLS"
  shows "pairing_consistent d pc"
proof (cases "is_dynamic targetId")
  case True
  with assms(1) have "pc = (if d = UP then Fin 10 else Fin (-10))"
    using resolveTarget_dynamic by blast
  then show ?thesis by (cases d) simp_all
next
  case False
  with assms have cells: "cells = DEFAULT_TARGET_CELLS" by simp
  from False assms(1) obtain c where
    "find (\<lambda>cell. cell_id cell = targetId) cells = Some c"
    "pc = cell_priceChange c" "d = cell_direction c"
    by (auto simp: resolveTarget_def is_dynamic_def split: option.splits)
  then show ?thesis
    using find_Some_set [of _ cells c] default_cells_sound [of c] cells by simp
qed

lemma resolveTarget_default_multiplier:
  assumes "resolveTarget pf DEFAULT_TARGET_CELLS targetId = Inr (pc, d, m)" "\<not> is_dynamic targetId"
  shows "\<not> js_le m (Fin 1)"
proof -
  from assms obtain c where
    "find (\<lambda>cell. cell_id cell = targetId) DEFAULT_TARGET_CELLS = Some c" "m = cell_multiplier c"
    by (auto simp: resolveTarget_def is_dynamic_def split: option.splits)
  then show ?thesis
    using find_Some_set [of _ DEFAULT_TARGET_CELLS c] default_cells_sound [of c] by simp
qed

lemma rejected_target:
  assumes "\<not> isNaN (pf amount)" "\<not> js_le (pf amount) (Fin 0)"
    and "resolveTarget pf (targetCells s) targetId = Inl msg"
  shows "placeBetFromHouseBalance pf sub api now1 now2 s amount targetId userAddress cellId =
           (Inl msg, s\<lparr>isPlacingBet := False, error := Some msg\<rparr>, [])"
  using assms by (simp add: placeBetFromHouseBalance_def caught_def Let_def)

lemma admitted_demo:
  assumes "\<not> isNaN (pf amount)" "\<not> js_le (pf amount) (Fin 0)"
    and "resolveTarget pf (targetCells s) targetId = Inr (pc, d, m)"
    and "startsWith (formatAddress userAddress) ''0xDEMO''"
  shows "\<exists>r. fst (placeBetFromHouseBalance pf sub api now1 now2 s amount targetId userAddress cellId) = Inr r \<and>
             bet_multiplier (bet r) = m \<and> bet_direction (bet r) = d"
  using assms by (simp add: placeBetFromHouseBalance_def Let_def)

lemma admitted_request:
  assumes "\<not> isNaN (pf amount)" "\<not> js_le (pf amount) (Fin 0)"
    and "resolveTarget pf (targetCells s) targetId = Inr (pc, d, m)"
    and "\<not> startsWith (formatAddress userAddress) ''0xDEMO''"
  shows "\<exists>req. snd (snd (placeBetFromHouseBalance pf sub api now1 now2 s amount targetId userAddress cellId)) = [req] \<and>
             req_multiplier req = m \<and> req_targetCell_priceChange req = pc \<and>
             req_targetCell_direction req = d"
  using assms
  by (auto simp: placeBetFromHouseBalance_def caught_def Let_def split: ApiResponse.splits)

text \<open>
  C6, as stated: a multiplier \<open>\<le> 1.0\<close> is rejected and no bet is created. The dynamic
  target \<open>UP-0.5\<close> carries the multiplier 0.5 and is admitted: for a demo address the
  bet is added to the active bets.
\<close>

theorem low_multiplier_admitted_counterexample:
  "js_le (Fin (1/2)) (Fin 1) \<and>
   placeBetFromHouseBalance parseFloat exact_minus api_unreachable 1000 1001 initialState
       ''10'' ''UP-0.5'' ''0xDEMO1'' None =
     (Inr \<lparr>betId = ''demo-1000'', remainingBalance = Fin 990,
           bet = \<lparr>bet_id = ''demo-1000'', bet_cellId = ''UP-0.5'', bet_amount = Fin 10,
                  bet_multiplier = Fin (1/2), bet_direction = UP, bet_timestamp = 1001\<rparr>\<rparr>,
      initialState\<lparr>activeBets :=
            [\<lparr>bet_id = ''demo-1000'', bet_cellId = ''UP-0.5'', bet_amount = Fin 10,
              bet_multiplier = Fin (1/2), bet_direction = UP, bet_timestamp = 1001\<rparr>],
         isPlacingBet := False, error := None\<rparr>,
      [])"
proof -
  have "parseFloat ''10'' = Fin 10" "parseFloat ''0.5'' = Fin (1/2)"
    by (simp_all add: parseFloat_defs startsWith_def)
  moreover have "string_of_int 1000 = ''1000''"
    by (simp add: string_of_int_def string_of_nat.simps)
  ultimately show ?thesis
    by (simp add: placeBetFromHouseBalance_def resolveTarget_def formatAddress_def startsWith_def
                  isNaN_def js_truthy_def addActiveBet_def orElse_def initialState_def Let_def)
qed

text \<open>
  C6, amended: \<open>placeBetFromHouseBalance\<close> makes no check of the multiplier. For a valid
  amount it rejects the target, with the message \<open>Invalid target cell\<close>, without a request
  and without a bet, exactly when the target id is neither a dynamic target (\<open>UP-\<close>,
  \<open>DOWN-\<close>) nor the id of a configured cell. A dynamic target is always admitted: its
  direction is the prefix, its price change is +10 for \<open>UP\<close> and -10 for \<open>DOWN\<close>, and its
  multiplier is \<open>parseFloat\<close> of the text after the dash, or 1.5 when that is \<open>NaN\<close> or
  0, whatever its size. Any other target takes price change, direction and multiplier from
  the configured cell with that id. An admitted target of the default configuration, and
  every dynamic target, has a price change that agrees with its direction, and the default
  cells have multipliers above 1. The multiplier of an admitted target is passed on as it
  is, to the bet in demo mode and to the request otherwise.
\<close>

theorem target_check_amended:
  assumes "\<not> isNaN (pf amount)" "\<not> js_le (pf amount) (Fin 0)"
  shows
    "(is_dynamic targetId \<longrightarrow>
        resolveTarget pf (targetCells s) targetId =
          Inr (if startsWith targetId ''UP-'' then Fin 10 else Fin (-10),
               if startsWith targetId ''UP-'' then UP else DOWN,
               if js_truthy (pf (multiplierText targetId)) then pf (multiplierText targetId)
               else Fin (3/2))) \<and>
     (\<not> is_dynamic targetId \<longrightarrow>
        resolveTarget pf (targetCells s) targetId =
          (case find (\<lambda>cell. cell_id cell = targetId) (targetCells s) of
             None \<Rightarrow> Inl ''Invalid target cell''
           | Some c \<Rightarrow> Inr (cell_priceChange c, cell_direction c, cell_multiplier c))) \<and>
     (\<forall>msg. resolveTarget pf (targetCells s) targetId = Inl msg \<longleftrightarrow>
        msg = ''Invalid target cell'' \<and> \<not> is_dynamic targetId \<and>
        find (\<lambda>cell. cell_id cell = targetId) (targetCells s) = None) \<and>
     (\<forall>msg. resolveTarget pf (targetCells s) targetId = Inl msg \<longrightarrow>
        placeBetFromHouseBalance pf sub api now1 now2 s amount targetId userAddress cellId =
          (Inl msg, s\<lparr>isPlacingBet := False, error := Some msg\<rparr>, [])) \<and>
     (\<forall>pc d m. resolveTarget pf (targetCells s) targetId = Inr (pc, d, m) \<longrightarrow>
        (is_dynamic targetId \<or> targetCells s = DEFAULT_TARGET_CELLS \<longrightarrow> pairing_consistent d pc) \<and>
        (\<not> is_dynamic targetId \<and> targetCells s = DEFAULT_TARGET_CELLS \<longrightarrow> \<not> js_le m (Fin 1)) \<and>
        (startsWith (formatAddress userAddress) ''0xDEMO'' \<longrightarrow>
           (\<exists>r. fst (placeBetFromHouseBalance pf sub api now1 now2 s amount targetId userAddress cellId) = Inr r \<and>
                bet_multiplier (bet r) = m \<and> bet_direction (bet r) = d)) \<and>
        (\<not> startsWith (formatAddress userAddress) ''0xDEMO'' \<longrightarrow>
           (\<exists>req. snd (snd (placeBetFromHouseBalance pf sub api now1 now2 s amount targetId userAddress cellId)) = [req] \<and>
                req_multiplier req = m \<and> req_targetCell_priceChange req = pc \<and>
                req_targetCell_direction req = d)))"
proof (intro conjI allI impI)
  assume "is_dynamic targetId"
  then show "resolveTarget pf (targetCells s) targetId =
          Inr (if startsWith targetId ''UP-'' then Fin 10 else Fin (-10),
               if startsWith targetId ''UP-'' then UP else DOWN,
               if js_truthy (pf (multiplierText targetId)) then pf (multiplierText targetId)
               else Fin (3/2))"
    by (rule resolveTarget_dynamic_value)
next
  assume "\<not> is_dynamic targetId"
  then show "resolveTarget pf (targetCells s) targetId =
          (case find (\<lambda>cell. cell_id cell = targetId) (targetCells s) of
             None \<Rightarrow> Inl ''Invalid target cell''
           | Some c \<Rightarrow> Inr (cell_priceChange c, cell_direction c, cell_multiplier c))"
    by (rule resolveTarget_static)
next
  fix msg
  show "resolveTarget pf (targetCells s) targetId = Inl msg \<longleftrightarrow>
        msg = ''Invalid target cell'' \<and> \<not> is_dynamic targetId \<and>
        find (\<lambda>cell. cell_id cell = targetId) (targetCells s) = None"
    by (rule resolveTarget_Inl)
next
  fix msg
  assume "resolveTarget pf (targetCells s) targetId = Inl msg"
  with assms show "placeBetFromHouseBalance pf sub api now1 now2 s amount targetId userAddress cellId =
          (Inl msg, s\<lparr>isPlacingBet := False, error := Some msg\<rparr>, [])"
    by (rule rejected_target)
next
  fix pc d m
  assume r: "resolveTarget pf (targetCells s) targetId = Inr (pc, d, m)"
  {
    assume "is_dynamic targetId \<or> targetCells s = DEFAULT_TARGET_CELLS"
    with r show "pairing_consistent d pc" by (rule resolveTarget_consistent)
  }
  {
    assume "\<not> is_dynamic targetId \<and> targetCells s = DEFAULT_TARGET_CELLS"
    with r show "\<not> js_le m (Fin 1)" using resolveTarget_default_multiplier by simp
  }
  {
    assume "startsWith (formatAddress userAddress) ''0xDEMO''"
    with assms r show "\<exists>r. fst (placeBetFromHouseBalance pf sub api now1 now2 s amount targetId userAddress cellId) = Inr r \<and>
                bet_multiplier (bet r) = m \<and> bet_direction (bet r) = d"
      by (rule admitted_demo)
  }
  {
    assume "\<not> startsWith (formatAddress userAddress) ''0xDEMO''"
    with assms r show "\<exists>req. snd (snd (placeBetFromHouseBalance pf sub api now1 now2 s amount targetId userAddress cellId)) = [req] \<and>
                req_multiplier req = m \<and> req_targetCell_priceChange req = pc \<and>
                req_targetCell_direction req = d"
      by (rule admitted_request)
  }
qed

lemma sample_targets:
  "\<not> isNaN (parseFloat ''10'')" "\<not> js_le (parseFloat ''10'') (Fin 0)"
  "resolveTarget parseFloat (targetCells initialState) ''9'' = Inl ''Invalid target cell''"
  "resolveTarget parseFloat (targetCells initialState) ''7'' = Inr (Fin (-10), DOWN, Fin 2)"
  "\<not> is_dynamic ''7''" "\<not> startsWith (formatAddress ''0xA'') ''0xDEMO''"
  "is_dynamic ''UP-0.5''" "startsWith ''UP-0.5'' ''UP-''" "multiplierText ''UP-0.5'' = ''0.5''"
  "parseFloat ''0.5'' = Fin (1/2)" "js_truthy (Fin (1/2))"
  by (simp_all add: parseFloat_defs startsWith_def isNaN_def resolveTarget_def initialState_def
                    DEFAULT_TARGET_CELLS_def is_dynamic_def formatAddress_def multiplierText_def
                    js_truthy_def)

theorem target_check_amended_witness:
  "\<not> isNaN (parseFloat ''10'') \<and> \<not> js_le (parseFloat ''10'') (Fin 0) \<and>
   resolveTarget parseFloat (targetCells initialState) ''9'' = Inl ''Invalid target cell'' \<and>
   placeBetFromHouseBalance parseFloat exact_minus api_accepting 1000 1001 initialState
       ''10'' ''9'' ''0xA'' None =
     (Inl ''Invalid target cell'',
      initialState\<lparr>isPlacingBet := False, error := Some ''Invalid target cell''\<rparr>, []) \<and>
   resolveTarget parseFloat (targetCells initialState) ''7'' = Inr (Fin (-10), DOWN, Fin 2) \<and>
   \<not> is_dynamic ''7'' \<and> targetCells initialState = DEFAULT_TARGET_CELLS \<and>
   pairing_consistent DOWN (Fin (-10)) \<and> \<not> js_le (Fin 2) (Fin 1) \<and>
   \<not> startsWith (formatAddress ''0xA'') ''0xDEMO'' \<and>
   (\<exists>req. snd (snd (placeBetFromHouseBalance parseFloat exact_minus api_accepting 1000 1001
                       initialState ''10'' ''7'' ''0xA'' None)) = [req] \<and>
          req_multiplier req = Fin 2 \<and> req_targetCell_priceChange req = Fin (-10) \<and>
          req_targetCell_direction req = DOWN) \<and>
   is_dynamic ''UP-0.5'' \<and> multiplierText ''UP-0.5'' = ''0.5'' \<and>
   resolveTarget parseFloat (targetCells initialState) ''UP-0.5'' = Inr (Fin 10, UP, Fin (1/2)) \<and>
   js_le (Fin (1/2)) (Fin 1) \<and>
   (\<exists>req. snd (snd (placeBetFromHouseBalance parseFloat exact_minus api_accepting 1000 1001
                       initialState ''10'' ''UP-0.5'' ''0xA'' None)) = [req] \<and>
          req_multiplier req = Fin (1/2) \<and> req_targetCell_priceChange req = Fin 10 \<and>
          req_targetCell_direction req = UP)"
proof -
  have cells: "targetCells initialState = DEFAULT_TARGET_CELLS"
    by (simp add: initialState_def)
  show ?thesis
    using sample_targets cells
      target_check_amended [where pf = parseFloat and amount = "''10''" and s = initialState
        and targetId = "''9''" and sub = exact_minus and api = api_accepting
        and ?now1.0 = 1000 and ?now2.0 = 1001 and userAddress = "''0xA''" and cellId = None]
      target_check_amended [where pf = parseFloat and amount = "''10''" and s = initialState
        and targetId = "''7''" and sub = exact_minus and api = api_accepting
        and ?now1.0 = 1000 and ?now2.0 = 1001 and userAddress = "''0xA''" and cellId = None]
      target_check_amended [where pf = parseFloat and amount = "''10''" and s = initialState
        and targetId = "''UP-0.5''" and sub = exact_minus and api = api_accepting
        and ?now1.0 = 1000 and ?now2.0 = 1001 and userAddress = "''0xA''" and cellId = None]
    by simp
qed

section \<open>Demo mode\<close>

lemma demo_no_request:
  "startsWith (formatAddress userAddress) ''0xDEMO'' \<Longrightarrow>
   snd (snd (placeBetFromHouseBalance pf sub api now1 now2 s amount targetId userAddress cellId)) = []"
  by (auto simp: placeBetFromHouseBalance_def caught_def Let_def split: sum.splits prod.splits)

lemma demo_api_irrelevant:
  "startsWith (formatAddress userAddress) ''0xDEMO'' \<Longrightarrow>
   placeBetFromHouseBalance pf sub api now1 now2 s amount targetId userAddress cellId =
   placeBetFromHouseBalance pf sub api' now1 now2 s amount targetId userAddress cellId"
  by (auto simp: placeBetFromHouseBalance_def caught_def Let_def split: sum.splits prod.splits)

lemma demo_success:
  assumes "startsWith (formatAddress userAddress) ''0xDEMO''"
    and "\<not> isNaN (pf amount)" "\<not> js_le (pf amount) (Fin 0)"
    and "resolveTarget pf (targetCells s) targetId = Inr (pc, d, m)"
  shows "placeBetFromHouseBalance pf sub api now1 now2 s amount targetId userAddress cellId =
     (Inr \<lparr>betId = ''demo-'' @ string_of_int now1,
           remainingBalance = sub (Fin 1000) (pf amount),
           bet = \<lparr>bet_id = ''demo-'' @ string_of_int now1, bet_cellId = orElse cellId targetId,
                  bet_amount = pf amount, bet_multiplier = m, bet_direction = d,
                  bet_timestamp = now2\<rparr>\<rparr>,
      s\<lparr>activeBets := activeBets s @
            [\<lparr>bet_id = ''demo-'' @ string_of_int now1, bet_cellId = orElse cellId targetId,
              bet_amount = pf amount, bet_multiplier = m, bet_direction = d,
              bet_timestamp = now2\<rparr>],
         isPlacingBet := False, error := None\<rparr>,
      [])"
  using assms by (simp add: placeBetFromHouseBalance_def addActiveBet_def Let_def)

lemma demo_invalid_amount:
  "isNaN (pf amount) \<or> js_le (pf amount) (Fin 0) \<Longrightarrow>
   placeBetFromHouseBalance pf sub api now1 now2 s amount targetId userAddress cellId =
     (Inl ''Invalid bet amount'', s\<lparr>isPlacingBet := False, error := Some ''Invalid bet amount''\<rparr>, [])"
  by (auto simp: placeBetFromHouseBalance_def caught_def Let_def)

text \<open>
  C9, as stated: for every address whose formatted form starts with \<open>0xDEMO\<close> the bet is
  added to the active bets and the made-up id is returned. The checks of the amount and of
  the target come before the demo branch: with the amount \<open>0\<close> such an address is rejected
  like any other, and no bet is added.
\<close>

theorem demo_rejected_counterexample:
  "startsWith (formatAddress ''0xDEMO1'') ''0xDEMO'' \<and>
   placeBetFromHouseBalance parseFloat exact_minus api_unreachable 1000 1001 initialState
       ''0'' ''2'' ''0xDEMO1'' None =
     (Inl ''Invalid bet amount'',
      initialState\<lparr>isPlacingBet := False, error := Some ''Invalid bet amount''\<rparr>, []) \<and>
   activeBets (initialState\<lparr>isPlacingBet := False, error := Some ''Invalid bet amount''\<rparr>) = []"
  by (simp add: placeBetFromHouseBalance_def caught_def initialState_def parseFloat_defs
                startsWith_def formatAddress_def isNaN_def)

text \<open>
  C9, amended: for a user address whose formatted form starts with \<open>0xDEMO\<close>,
  \<open>placeBetFromHouseBalance\<close> sends no request to the bet endpoint and its result does
  not depend on what the endpoint would answer. When the parsed amount is a number above 0
  and the target resolves, it appends the bet to the active bets and returns the made-up
  id \<open>demo-\<close> followed by the clock reading, with the remaining balance
  \<open>1000 - betAmount\<close>, the difference as the runtime computes it. When the amount is not
  a number or is not above 0, or the target does not resolve, the call is rejected with
  \<open>Invalid bet amount\<close> or \<open>Invalid target cell\<close> and no bet is added.
\<close>

theorem demo_mode_bypasses_ledger:
  assumes "startsWith (formatAddress userAddress) ''0xDEMO''"
  shows "snd (snd (placeBetFromHouseBalance pf sub api now1 now2 s amount targetId userAddress cellId)) = [] \<and>
    placeBetFromHouseBalance pf sub api now1 now2 s amount targetId userAddress cellId =
      placeBetFromHouseBalance pf sub api' now1 now2 s amount targetId userAddress cellId \<and>
    (\<not> isNaN (pf amount) \<and> \<not> js_le (pf amount) (Fin 0) \<and>
     resolveTarget pf (targetCells s) targetId = Inr (pc, d, m) \<longrightarrow>
     placeBetFromHouseBalance pf sub api now1 now2 s amount targetId userAddress cellId =
       (Inr \<lparr>betId = ''demo-'' @ string_of_int now1,
             remainingBalance = sub (Fin 1000) (pf amount),
             bet = \<lparr>bet_id = ''demo-'' @ string_of_int now1, bet_cellId = orElse cellId targetId,
                    bet_amount = pf amount, bet_multiplier = m, bet_direction = d,
                    bet_timestamp = now2\<rparr>\<rparr>,
        s\<lparr>activeBets := activeBets s @
              [\<lparr>bet_id = ''demo-'' @ string_of_int now1, bet_cellId = orElse cellId targetId,
                bet_amount = pf amount, bet_multiplier = m, bet_direction = d,
                bet_timestamp = now2\<rparr>],
           isPlacingBet := False, error := None\<rparr>,
        [])) \<and>
    (isNaN (pf amount) \<or> js_le (pf amount) (Fin 0) \<longrightarrow>
     placeBetFromHouseBalance pf sub api now1 now2 s amount targetId userAddress cellId =
       (Inl ''Invalid bet amount'',
        s\<lparr>isPlacingBet := False, error := Some ''Invalid bet amount''\<rparr>, [])) \<and>
    (\<not> isNaN (pf amount) \<and> \<not> js_le (pf amount) (Fin 0) \<and>
     resolveTarget pf (targetCells s) targetId = Inl msg \<longrightarrow>
     placeBetFromHouseBalance pf sub api now1 now2 s amount targetId userAddress cellId =
       (Inl msg, s\<lparr>isPlacingBet := False, error := Some msg\<rparr>, []))"
proof (intro conjI impI)
  show "snd (snd (placeBetFromHouseBalance pf sub api now1 now2 s amount targetId userAddress cellId)) = []"
    using assms by (rule demo_no_request)
  show "placeBetFromHouseBalance pf sub api now1 now2 s amount targetId userAddress cellId =
      placeBetFromHouseBalance pf sub api' now1 now2 s amount targetId userAddress cellId"
    using assms by (rule demo_api_irrelevant)
next
  assume "\<not> isNaN (pf amount) \<and> \<not> js_le (pf amount) (Fin 0) \<and>
     resolveTarget pf (targetCells s) targetId = Inr (pc, d, m)"
  with assms show "placeBetFromHouseBalance pf sub api now1 now2 s amount targetId userAddress cellId =
       (Inr \<lparr>betId = ''demo-'' @ string_of_int now1,
             remainingBalance = sub (Fin 1000) (pf amount),
             bet = \<lparr>bet_id = ''demo-'' @ string_of_int now1, bet_cellId = orElse cellId targetId,
                    bet_amount = pf amount, bet_multiplier = m, bet_direction = d,
                    bet_timestamp = now2\<rparr>\<rparr>,
        s\<lparr>activeBets := activeBets s @
              [\<lparr>bet_id = ''demo-'' @ string_of_int now1, bet_cellId = orElse cellId targetId,
                bet_amount = pf amount, bet_multiplier = m, bet_direction = d,
                bet_timestamp = now2\<rparr>],
           isPlacingBet := False, error := None\<rparr>,
        [])"
    by (simp add: demo_success)
next
  assume "isNaN (pf amount) \<or> js_le (pf amount) (Fin 0)"
  then show "placeBetFromHouseBalance pf sub api now1 now2 s amount targetId userAddress cellId =
       (Inl ''Invalid bet amount'',
        s\<lparr>isPlacingBet := False, error := Some ''Invalid bet amount''\<rparr>, [])"
    by (rule demo_invalid_amount)
next
  assume "\<not> isNaN (pf amount) \<and> \<not> js_le (pf amount) (Fin 0) \<and>
     resolveTarget pf (targetCells s) targetId = Inl msg"
  then show "placeBetFromHouseBalance pf sub api now1 now2 s amount targetId userAddress cellId =
       (Inl msg, s\<lparr>isPlacingBet := False, error := Some msg\<rparr>, [])"
    by (simp add: rejected_target)
qed

lemma sample_demo_inputs:
  "startsWith (formatAddress ''DEMO-player'') ''0xDEMO''"
  "\<not> isNaN (parseFloat ''25'')" "\<not> js_le (parseFloat ''25'') (Fin 0)"
  "resolveTarget parseFloat (targetCells initialState) ''DOWN-1.75'' = Inr (Fin (-10), DOWN, Fin (7/4))"
  by (simp_all add: formatAddress_def startsWith_def parseFloat_defs isNaN_def resolveTarget_def
                    js_truthy_def)

theorem demo_mode_bypasses_ledger_witness:
  "startsWith (formatAddress ''DEMO-player'') ''0xDEMO'' \<and>
   \<not> isNaN (parseFloat ''25'') \<and> \<not> js_le (parseFloat ''25'') (Fin 0) \<and>
   resolveTarget parseFloat (targetCells initialState) ''DOWN-1.75'' = Inr (Fin (-10), DOWN, Fin (7/4)) \<and>
   placeBetFromHouseBalance parseFloat exact_minus api_unreachable 1737748395000 1737748395002
       initialState ''25'' ''DOWN-1.75'' ''DEMO-player'' (Some ''cell-1737748395000-3'') =
     (Inr \<lparr>betId = ''demo-1737748395000'', remainingBalance = Fin 975,
           bet = \<lparr>bet_id = ''demo-1737748395000'', bet_cellId = ''cell-1737748395000-3'',
                  bet_amount = Fin 25, bet_multiplier = Fin (7/4), bet_direction = DOWN,
                  bet_timestamp = 1737748395002\<rparr>\<rparr>,
      initialState\<lparr>activeBets :=
            [\<lparr>bet_id = ''demo-1737748395000'', bet_cellId = ''cell-1737748395000-3'',
              bet_amount = Fin 25, bet_multiplier = Fin (7/4), bet_direction = DOWN,
              bet_timestamp = 1737748395002\<rparr>],
         isPlacingBet := False, error := None\<rparr>,
      [])"
proof -
  have p25: "parseFloat ''25'' = Fin 25"
    by (simp add: parseFloat_defs startsWith_def)
  have id: "string_of_int 1737748395000 = ''1737748395000''"
    by (simp add: string_of_int_def string_of_nat.simps)
  show ?thesis
    using sample_demo_inputs
      demo_mode_bypasses_ledger [where userAddress = "''DEMO-player''" and pf = parseFloat
        and sub = exact_minus and api = api_unreachable and api' = api_unreachable
        and ?now1.0 = 1737748395000 and ?now2.0 = 1737748395002 and s = initialState
        and amount = "''25''" and targetId = "''DOWN-1.75''"
        and cellId = "Some ''cell-1737748395000-3''"
        and pc = "Fin (-10)" and d = DOWN and m = "Fin (7/4)"]
    by (simp add: p25 id orElse_def initialState_def)
qed

end
